theory Spec2Isabelle
  imports Main "HOL-Library.Word" "HOL-Library.Sublist"
begin

section \<open>Event classification (hooks\_repository\_event.go, lines 14--78)\<close>

text \<open>
  Go strings are byte sequences, so \<open>string\<close> (a list of 8-bit characters) is the
  model of every Go \<open>string\<close>, and of the named string types below.
\<close>

type_synonym WorkflowHookEventName = string
type_synonym WorkflowHookEventType = string

definition WorkflowHookEventNameWorkflowUpdate :: WorkflowHookEventName where
  "WorkflowHookEventNameWorkflowUpdate = ''workflow-update''"
definition WorkflowHookEventNameModelUpdate :: WorkflowHookEventName where
  "WorkflowHookEventNameModelUpdate = ''model-update''"
definition WorkflowHookEventNamePush :: WorkflowHookEventName where
  "WorkflowHookEventNamePush = ''push''"
definition WorkflowHookEventNameManual :: WorkflowHookEventName where
  "WorkflowHookEventNameManual = ''manual''"
definition WorkflowHookEventNameWebHook :: WorkflowHookEventName where
  "WorkflowHookEventNameWebHook = ''webhook''"
definition WorkflowHookEventNameWorkflowRun :: WorkflowHookEventName where
  "WorkflowHookEventNameWorkflowRun = ''workflow-run''"
definition WorkflowHookEventNameScheduler :: WorkflowHookEventName where
  "WorkflowHookEventNameScheduler = ''scheduler''"

definition WorkflowHookEventNamePullRequest :: WorkflowHookEventName where
  "WorkflowHookEventNamePullRequest = ''pull-request''"
definition WorkflowHookEventTypePullRequestOpened :: WorkflowHookEventType where
  "WorkflowHookEventTypePullRequestOpened = ''opened''"
definition WorkflowHookEventTypePullRequestReopened :: WorkflowHookEventType where
  "WorkflowHookEventTypePullRequestReopened = ''reopened''"
definition WorkflowHookEventTypePullRequestClosed :: WorkflowHookEventType where
  "WorkflowHookEventTypePullRequestClosed = ''closed''"
definition WorkflowHookEventTypePullRequestEdited :: WorkflowHookEventType where
  "WorkflowHookEventTypePullRequestEdited = ''edited''"

definition WorkflowHookEventNamePullRequestComment :: WorkflowHookEventName where
  "WorkflowHookEventNamePullRequestComment = ''pull-request-comment''"
definition WorkflowHookEventTypePullRequestCommentCreated :: WorkflowHookEventType where
  "WorkflowHookEventTypePullRequestCommentCreated = ''created''"
definition WorkflowHookEventTypePullRequestCommentDeleted :: WorkflowHookEventType where
  "WorkflowHookEventTypePullRequestCommentDeleted = ''deleted''"
definition WorkflowHookEventTypePullRequestCommentEdited :: WorkflowHookEventType where
  "WorkflowHookEventTypePullRequestCommentEdited = ''edited''"

definition HookEventStatusScheduled :: string where
  "HookEventStatusScheduled = ''Scheduled''"
definition HookEventStatusAnalysis :: string where
  "HookEventStatusAnalysis = ''Analyzing''"
definition HookEventStatusCheckAnalysis :: string where
  "HookEventStatusCheckAnalysis = ''CheckAnalyzing''"
definition HookEventStatusWorkflowHooks :: string where
  "HookEventStatusWorkflowHooks = ''WorkflowHooks''"
definition HookEventStatusSignKey :: string where
  "HookEventStatusSignKey = ''SignKey''"
definition HookEventStatusGitInfo :: string where
  "HookEventStatusGitInfo = ''GitInfo''"
definition HookEventStatusWorkflow :: string where
  "HookEventStatusWorkflow = ''Workflow''"
definition HookEventStatusDone :: string where
  "HookEventStatusDone = ''Done''"
definition HookEventStatusError :: string where
  "HookEventStatusError = ''Error''"
definition HookEventStatusSkipped :: string where
  "HookEventStatusSkipped = ''Skipped''"

definition HookEventWorkflowStatusScheduled :: string where
  "HookEventWorkflowStatusScheduled = ''Scheduled''"
definition HookEventWorkflowStatusSkipped :: string where
  "HookEventWorkflowStatusSkipped = ''Skipped''"
definition HookEventWorkflowStatusError :: string where
  "HookEventWorkflowStatusError = ''Error''"
definition HookEventWorkflowStatusDone :: string where
  "HookEventWorkflowStatusDone = ''Done''"

text \<open>
  \<open>IsValidForEventName\<close> (lines 18--34). The receiver is the type \<open>t\<close>, the argument
  the name \<open>n\<close>. A Go \<open>switch\<close> case does not fall through: when the inner switch of
  the pull-request (or pull-request-comment) case matches nothing, control leaves the
  outer switch and reaches the final \<open>return false\<close>; the \<open>default\<close> case is taken
  only for the other names.
\<close>

definition IsValidForEventName :: "WorkflowHookEventType \<Rightarrow> WorkflowHookEventName \<Rightarrow> bool" where
  "IsValidForEventName t n =
    (if n = WorkflowHookEventNamePullRequest then
       (if t = WorkflowHookEventTypePullRequestOpened
           \<or> t = WorkflowHookEventTypePullRequestReopened
           \<or> t = WorkflowHookEventTypePullRequestClosed
           \<or> t = WorkflowHookEventTypePullRequestEdited
        then True else False)
     else if n = WorkflowHookEventNamePullRequestComment then
       (if t = WorkflowHookEventTypePullRequestCommentCreated
           \<or> t = WorkflowHookEventTypePullRequestCommentDeleted
           \<or> t = WorkflowHookEventTypePullRequestCommentEdited
        then True else False)
     else t = '''')"

text \<open>
  The reading of \<open>IsValidForEventName\<close> as "true exactly when the type is empty or the
  pair is one of the enumerated combinations", written down as the specification words it.
\<close>

definition spec_IsValidForEventName :: "WorkflowHookEventType \<Rightarrow> WorkflowHookEventName \<Rightarrow> bool" where
  "spec_IsValidForEventName t n =
    (t = ''''
     \<or> (n = ''pull-request'' \<and> t \<in> {''opened'', ''reopened'', ''closed'', ''edited''})
     \<or> (n = ''pull-request-comment'' \<and> t \<in> {''created'', ''deleted'', ''edited''}))"

section \<open>Event records and termination (lines 132--162, 241--276, 342--348)\<close>

text \<open>
  The structs keep the fields that the functions modelled here read, under the names
  of the source; a field name that occurs in several structs carries a suffix
  (\<open>_a\<close> for the analysis, \<open>_w\<close> for the workflow, \<open>_d\<close> for a report item).
  \<open>int64\<close> fields are 64-bit words read as two's complement.
\<close>

record HookRepositoryEventAnalysis =
  AnalyzeID :: string
  Status_a :: string
  ProjectKey_a :: string
  Error_a :: string
  FindRetryCount :: "64 word"

record HookRepositoryEventWorkflow =
  ProjectKey_w :: string
  WorkflowName :: string
  Ref :: string
  Status_w :: string
  Error_w :: string
  RunID :: string
  RunNumber :: "64 word"

record HookRepositoryEvent =
  UUID :: string
  EventName :: WorkflowHookEventName
  EventType :: WorkflowHookEventType
  VCSServerName :: string
  RepositoryName :: string
  Status :: string
  LastError :: string
  NbErrors :: "64 word"
  Analyses :: "HookRepositoryEventAnalysis list"
  WorkflowHooks :: "HookRepositoryEventWorkflow list"

definition HookRepositoryEvent_IsTerminated :: "HookRepositoryEvent \<Rightarrow> bool" where
  "HookRepositoryEvent_IsTerminated h =
    (Status h = HookEventStatusDone \<or> Status h = HookEventStatusError
     \<or> Status h = HookEventStatusSkipped)"

definition HookRepositoryEventWorkflow_IsTerminated :: "HookRepositoryEventWorkflow \<Rightarrow> bool" where
  "HookRepositoryEventWorkflow_IsTerminated wh =
    (Status_w wh = HookEventWorkflowStatusError \<or> Status_w wh = HookEventWorkflowStatusSkipped
     \<or> Status_w wh = HookEventWorkflowStatusDone)"

section \<open>Formatting: the verbs of \<open>fmt.Sprintf\<close> and \<open>strconv.Itoa\<close>\<close>

text \<open>
  \<open>%s\<close> copies the bytes of its string argument, so \<open>fmt.Sprintf\<close> with \<open>%s\<close> verbs
  is concatenation. \<open>%d\<close> and \<open>strconv.Itoa\<close> print a signed integer in base 10: a
  minus sign for a negative value, then the digits of the magnitude, most significant
  first, with no leading zero (a single \<open>0\<close> for zero). The digits are produced from
  the least significant one, in front of the ones already written.
\<close>

definition digits :: string where
  "digits = ''0123456789''"

fun formatBits :: "nat \<Rightarrow> string \<Rightarrow> string" where
  "formatBits u a =
    (if u < 10 then (digits ! u) # a
     else formatBits (u div 10) ((digits ! (u mod 10)) # a))"

declare formatBits.simps [simp del]

definition FormatInt :: "int \<Rightarrow> string" where
  "FormatInt i = (if i < 0 then CHR ''-'' # formatBits (nat (- i)) [] else formatBits (nat i) [])"

text \<open>\<open>strconv.Itoa\<close> of a slice length, which is never negative.\<close>

definition Itoa :: "nat \<Rightarrow> string" where
  "Itoa n = FormatInt (int n)"

text \<open>\<open>%d\<close> of an \<open>int64\<close>.\<close>

definition fmt_d :: "64 word \<Rightarrow> string" where
  "fmt_d x = FormatInt (sint x)"

text \<open>
  \<open>%q\<close> prints a string as a double-quoted Go string literal (\<open>strconv.Quote\<close>): the
  string is scanned rune by rune between two double quotes. A byte below \<open>0x80\<close> is a
  rune of its own: the double quote and the backslash are written behind a backslash,
  a printable one (\<open>0x20\<close> to \<open>0x7E\<close>) is copied, the seven control characters with a
  short escape are written as \<open>\a \b \f \n \r \t \v\<close>, and any other one as \<open>\x\<close> and
  two lower-case hexadecimal digits.

  A byte from \<open>0x80\<close> on starts a multi-byte rune, whose treatment depends on the UTF-8
  decoder and on the Unicode tables of the Go library (\<open>unicode.IsPrint\<close>). That part is
  the parameter \<open>hi\<close>: given the rest of the string it returns the text written for the
  rune and the number of bytes the rune takes (at least one byte is consumed).
\<close>

definition lowerhex :: string where
  "lowerhex = ''0123456789abcdef''"

definition appendEscapedRune :: "char \<Rightarrow> string" where
  "appendEscapedRune c =
    (if c = CHR 0x22 \<or> c = CHR 0x5C then [CHR 0x5C, c]
     else if 0x20 \<le> (of_char c :: nat) \<and> (of_char c :: nat) < 0x7F then [c]
     else if c = CHR 0x07 then [CHR 0x5C, CHR ''a'']
     else if c = CHR 0x08 then [CHR 0x5C, CHR ''b'']
     else if c = CHR 0x0C then [CHR 0x5C, CHR ''f'']
     else if c = CHR 0x0A then [CHR 0x5C, CHR ''n'']
     else if c = CHR 0x0D then [CHR 0x5C, CHR ''r'']
     else if c = CHR 0x09 then [CHR 0x5C, CHR ''t'']
     else if c = CHR 0x0B then [CHR 0x5C, CHR ''v'']
     else [CHR 0x5C, CHR ''x'', lowerhex ! (of_char c div 16), lowerhex ! (of_char c mod 16)])"

fun quoteLoop :: "(string \<Rightarrow> string \<times> nat) \<Rightarrow> string \<Rightarrow> string" where
  "quoteLoop hi [] = []"
| "quoteLoop hi (c # cs) =
    (if (of_char c :: nat) < 0x80 then appendEscapedRune c @ quoteLoop hi cs
     else fst (hi (c # cs)) @ quoteLoop hi (drop (snd (hi (c # cs)) - 1) cs))"

definition Quote :: "(string \<Rightarrow> string \<times> nat) \<Rightarrow> string \<Rightarrow> string" where
  "Quote hi s = CHR 0x22 # quoteLoop hi s @ [CHR 0x22]"

section \<open>The insight report (lines 164--239)\<close>

text \<open>
  Modelled from the spec: the declarations of \<open>VCSInsight\<close> and \<open>VCSInsightData\<close>, which
  are in another file of the package. The report has a title, a detail text and an
  ordered list of items, each with a title, a kind (\<open>LINK\<close> or \<open>TEXT\<close>), a text and an
  optional link; the fields carry the names under which \<open>ToInsightReport\<close> sets them,
  and an item built without a link has the empty string there.
\<close>

record VCSInsightData =
  Title_d :: string
  Type :: string
  Text :: string
  Href :: string

record VCSInsight =
  Title :: string
  Detail :: string
  Datas :: "VCSInsightData list"

text \<open>
  What \<open>ToInsightReport\<close> uses and this file does not define: \<open>url.PathEscape\<close> of the
  Go library, the treatment of multi-byte runes by \<open>%q\<close> (see \<open>Quote\<close>), and the constant
  \<open>V2WorkflowRunStatusSuccess\<close> of the package. They are parameters of the model.
\<close>

record externals =
  PathEscape :: "string \<Rightarrow> string"
  quoteMultibyte :: "string \<Rightarrow> string \<times> nat"
  V2WorkflowRunStatusSuccess :: string

text \<open>Indexing a slice out of range panics.\<close>

datatype panic = IndexOutOfRange

text \<open>Lines 165--169: the report as first built.\<close>

definition newReport :: "externals \<Rightarrow> HookRepositoryEvent \<Rightarrow> VCSInsight" where
  "newReport E h =
    \<lparr>Title = ''CDS'',
     Detail = ''Event '' @ Quote (quoteMultibyte E) (EventName h) @ '' ('' @ UUID h @ ''): ''
              @ Status h,
     Datas = []\<rparr>"

text \<open>Lines 170--178: the error text added to the detail.\<close>

definition addErrors :: "HookRepositoryEvent \<Rightarrow> VCSInsight \<Rightarrow> VCSInsight" where
  "addErrors h report =
    (if Status h \<noteq> HookEventStatusDone then
       report\<lparr>Detail := Detail report @ ''\<newline>\<newline>'' @ LastError h\<rparr>
     else
       foldl (\<lambda>report a.
           if Error_a a \<noteq> '''' then
             report\<lparr>Detail := Detail report @ ''\<newline>\<newline>On project '' @ ProjectKey_a a
                                @ '': '' @ Error_a a\<rparr>
           else report)
         report (Analyses h))"

text \<open>
  Lines 180--207: the items of the analyses. The three branches are tested in the
  order of the source: fewer than six analyses, else at least one, else none.
\<close>

definition addAnalyses :: "externals \<Rightarrow> string \<Rightarrow> HookRepositoryEvent \<Rightarrow> VCSInsight \<Rightarrow> VCSInsight" where
  "addAnalyses E uiURL h report =
    (if length (Analyses h) < 6 then
       foldl (\<lambda>report a.
           report\<lparr>Datas := Datas report @
             [\<lparr>Title_d = ''Analysis on '' @ ProjectKey_a a,
               Type = ''LINK'',
               Text = Status_a a,
               Href = uiURL @ ''/project/'' @ ProjectKey_a a @ ''/explore/vcs/''
                      @ VCSServerName h @ ''/repository/''
                      @ PathEscape E (RepositoryName h) @ ''/settings''\<rparr>]\<rparr>)
         report (Analyses h)
     else if length (Analyses h) > 0 then
       (let a = Analyses h ! 0 in
        report\<lparr>Datas := Datas report @
          [\<lparr>Title_d = ''Analysis on '' @ ProjectKey_a a,
            Type = ''LINK'',
            Text = Status_a a,
            Href = uiURL @ ''/project/'' @ ProjectKey_a a @ ''/explore/vcs/''
                   @ VCSServerName h @ ''/repository/''
                   @ PathEscape E (RepositoryName h) @ ''/settings''\<rparr>]\<rparr>)
     else
       report\<lparr>Datas := Datas report @
         [\<lparr>Title_d = ''Nb of Analysis triggered'',
           Type = ''TEXT'',
           Text = Itoa 0,
           Href = ''''\<rparr>]\<rparr>)"

text \<open>
  Lines 209--237: the items of the workflows. In the second branch the source reads
  \<open>h.WorkflowHooks[0]\<close>, which panics on an empty slice.
\<close>

definition addWorkflows :: "externals \<Rightarrow> string \<Rightarrow> HookRepositoryEvent \<Rightarrow> VCSInsight \<Rightarrow> panic + VCSInsight" where
  "addWorkflows E uiURL h report =
    (if length (WorkflowHooks h) + length (Datas report) < 7 then
       Inr (foldl (\<lambda>report w.
           report\<lparr>Datas := Datas report @
             [\<lparr>Title_d = WorkflowName w @ '' #'' @ fmt_d (RunNumber w),
               Type = ''LINK'',
               Text = Status_w w,
               Href = (if Status_w w = V2WorkflowRunStatusSuccess E then
                         uiURL @ ''/project/'' @ ProjectKey_w w @ ''/run/'' @ RunID w
                       else
                         uiURL @ ''/project/'' @ ProjectKey_w w @ ''/explore/vcs/''
                         @ VCSServerName h @ ''/repository/''
                         @ PathEscape E (RepositoryName h) @ ''/settings'')\<rparr>]\<rparr>)
         report (WorkflowHooks h))
     else
       (let repoFilter = VCSServerName h @ ''/'' @ RepositoryName h in
        case WorkflowHooks h of
          [] \<Rightarrow> Inl IndexOutOfRange
        | w # _ \<Rightarrow>
            Inr (report\<lparr>Datas := Datas report @
              [\<lparr>Title_d = ''Nb of workflows triggered'',
                Type = ''LINK'',
                Text = Itoa (length (WorkflowHooks h)),
                Href = uiURL @ ''/project/'' @ ProjectKey_w w @ ''/run?workflow_ref=''
                       @ PathEscape E (Ref w) @ ''&repository=''
                       @ PathEscape E repoFilter\<rparr>]\<rparr>)))"

text \<open>The report at line 208, when the items of the analyses have been added.\<close>

definition analysedReport :: "externals \<Rightarrow> HookRepositoryEvent \<Rightarrow> string \<Rightarrow> VCSInsight" where
  "analysedReport E h uiURL = addAnalyses E uiURL h (addErrors h (newReport E h))"

definition ToInsightReport :: "externals \<Rightarrow> HookRepositoryEvent \<Rightarrow> string \<Rightarrow> panic + VCSInsight" where
  "ToInsightReport E h uiURL = addWorkflows E uiURL h (analysedReport E h uiURL)"

text \<open>
  The first line of the detail as the specification writes it: the name between two
  double quotes, copied as it is.
\<close>

definition spec_Detail_prefix :: "HookRepositoryEvent \<Rightarrow> string" where
  "spec_Detail_prefix h =
    ''Event '' @ [CHR 0x22] @ EventName h @ [CHR 0x22] @ '' ('' @ UUID h @ ''): '' @ Status h"

text \<open>The number that a string of decimal digits denotes.\<close>

definition decimalValue :: "string \<Rightarrow> nat" where
  "decimalValue s = foldl (\<lambda>v c. 10 * v + (of_char c - 48)) 0 s"

section \<open>Webhook secrets (lines 398--410)\<close>

text \<open>
  \<open>pbkdf2.Key\<close>, \<open>sha512.New\<close> and \<open>base64.StdEncoding.EncodeToString\<close> belong to
  libraries outside the repository; they are parameters of the model. \<open>[]byte(s)\<close> is
  the byte sequence of the string, so the conversions are the identity here. The type
  \<open>'h\<close> stands for the hash constructor that \<open>pbkdf2.Key\<close> receives.
\<close>

record 'h crypto =
  pbkdf2_Key :: "string \<Rightarrow> string \<Rightarrow> nat \<Rightarrow> nat \<Rightarrow> 'h \<Rightarrow> string"
  sha512_New :: 'h
  EncodeToString :: "string \<Rightarrow> string"

definition GenerateRepositoryWebHookSecret ::
  "'h crypto \<Rightarrow> string \<Rightarrow> string \<Rightarrow> string \<Rightarrow> string \<Rightarrow> string \<Rightarrow> string" where
  "GenerateRepositoryWebHookSecret C hookSecretKey pkey vcsName repoName uuid =
    (let pass = pkey @ ''-'' @ vcsName @ ''-'' @ repoName @ ''-'' @ uuid;
         keyBytes = pbkdf2_Key C pass hookSecretKey 4096 128 (sha512_New C);
         key64 = EncodeToString C keyBytes
     in key64)"

definition GenerateWorkflowWebHookSecret ::
  "'h crypto \<Rightarrow> string \<Rightarrow> string \<Rightarrow> string \<Rightarrow> string \<Rightarrow> string \<Rightarrow> string \<Rightarrow> string" where
  "GenerateWorkflowWebHookSecret C hookSecretKey pkey vcsName repoName workflowName uuid =
    (let pass = pkey @ ''-'' @ vcsName @ ''-'' @ repoName @ ''-'' @ workflowName @ ''-'' @ uuid;
         keyBytes = pbkdf2_Key C pass hookSecretKey 4096 128 (sha512_New C);
         key64 = EncodeToString C keyBytes
     in key64)"

text \<open>
  The reference definition of the specification: the identifying fields joined with a
  separator into a passphrase, the key derived from the passphrase as password and the
  master key as salt with 4096 iterations, 128 bytes and SHA-512, then base64.
\<close>

fun joinFields :: "string \<Rightarrow> string list \<Rightarrow> string" where
  "joinFields sep [] = []"
| "joinFields sep [f] = f"
| "joinFields sep (f # g # fs) = f @ sep @ joinFields sep (g # fs)"

definition spec_deriveSecret :: "'h crypto \<Rightarrow> string \<Rightarrow> string list \<Rightarrow> string" where
  "spec_deriveSecret C masterKey fs =
    EncodeToString C
      (pbkdf2_Key C (joinFields ''-'' fs) masterKey 4096 128 (sha512_New C))"

section \<open>Instances for the examples\<close>

text \<open>
  An instance of the parameters of the report. \<open>PathEscape\<close> follows \<open>net/url\<close> for a
  path segment: letters, digits and \<open>- _ . ~ $ & + : = @\<close> are copied, every other
  byte becomes \<open>%\<close> and two upper-case hexadecimal digits. For a byte from \<open>0x80\<close> on,
  \<open>quoteMultibyte\<close> writes \<open>\x\<close> and two hexadecimal digits, as \<open>strconv.Quote\<close> does
  for a byte that starts no valid UTF-8 sequence; the examples have ASCII names only.
\<close>

definition upperhex :: string where
  "upperhex = ''0123456789ABCDEF''"

definition shouldEscape_pathSegment :: "char \<Rightarrow> bool" where
  "shouldEscape_pathSegment c =
    (let b = (of_char c :: nat) in
     if (0x61 \<le> b \<and> b \<le> 0x7A) \<or> (0x41 \<le> b \<and> b \<le> 0x5A) \<or> (0x30 \<le> b \<and> b \<le> 0x39)
     then False
     else if c \<in> set ''-_.~'' then False
     else if c \<in> set ''$&+,/:;=?@'' then
       c = CHR ''/'' \<or> c = CHR '';'' \<or> c = CHR '','' \<or> c = CHR ''?''
     else True)"

definition escape_pathSegment :: "string \<Rightarrow> string" where
  "escape_pathSegment s =
    concat (map (\<lambda>c. if shouldEscape_pathSegment c
                       then [CHR ''%'', upperhex ! (of_char c div 16), upperhex ! (of_char c mod 16)]
                       else [c]) s)"

definition invalidByte :: "string \<Rightarrow> string \<times> nat" where
  "invalidByte s =
    (case s of
       [] \<Rightarrow> ([], 1)
     | c # _ \<Rightarrow>
         ([CHR 0x5C, CHR ''x'', lowerhex ! (of_char c div 16), lowerhex ! (of_char c mod 16)], 1))"

definition sampleExternals :: externals where
  "sampleExternals =
    \<lparr>PathEscape = escape_pathSegment, quoteMultibyte = invalidByte,
     V2WorkflowRunStatusSuccess = ''Success''\<rparr>"

definition sampleAnalysis :: "string \<Rightarrow> string \<Rightarrow> HookRepositoryEventAnalysis" where
  "sampleAnalysis pkey err =
    \<lparr>AnalyzeID = ''a-1'', Status_a = (if err = '''' then ''Success'' else ''Error''),
     ProjectKey_a = pkey, Error_a = err, FindRetryCount = 0\<rparr>"

definition sampleWorkflow :: "string \<Rightarrow> string \<Rightarrow> 64 word \<Rightarrow> HookRepositoryEventWorkflow" where
  "sampleWorkflow name st num =
    \<lparr>ProjectKey_w = ''PK'', WorkflowName = name, Ref = ''refs/heads/main'', Status_w = st,
     Error_w = '''', RunID = ''r-1'', RunNumber = num\<rparr>"

definition sampleEvent ::
  "string \<Rightarrow> HookRepositoryEventAnalysis list \<Rightarrow> HookRepositoryEventWorkflow list
    \<Rightarrow> HookRepositoryEvent" where
  "sampleEvent st as ws =
    \<lparr>UUID = ''u-1'', EventName = ''push'', EventType = '''', VCSServerName = ''github'',
     RepositoryName = ''ovh/cds'', Status = st, LastError = ''boom'', NbErrors = 0,
     Analyses = as, WorkflowHooks = ws\<rparr>"

text \<open>An event whose name is a single double quote.\<close>

definition quoteEvent :: HookRepositoryEvent where
  "quoteEvent = (sampleEvent ''Done'' [] [])\<lparr>EventName := [CHR 0x22]\<rparr>"

text \<open>Two analyses, the second one failed, and two workflows: four items.\<close>

definition smallEvent :: HookRepositoryEvent where
  "smallEvent =
    sampleEvent ''Done'' [sampleAnalysis ''P1'' '''', sampleAnalysis ''P2'' ''bad'']
      [sampleWorkflow ''build'' ''Success'' 12, sampleWorkflow ''test'' ''Error'' 3]"

text \<open>Six analyses and six workflows: both sections are summarised.\<close>

definition largeEvent :: HookRepositoryEvent where
  "largeEvent =
    sampleEvent ''Error'' (replicate 6 (sampleAnalysis ''P1'' ''''))
      (replicate 6 (sampleWorkflow ''build'' ''Success'' 12))"

text \<open>
  A stand-in for the cryptographic library, with the types of its functions and none of
  their content: the derived key shows the password and the salt it was given.
\<close>

definition sampleCrypto :: "unit crypto" where
  "sampleCrypto =
    \<lparr>pbkdf2_Key = (\<lambda>password salt iter keyLen h. password @ ''|'' @ salt),
     sha512_New = (),
     EncodeToString = (\<lambda>src. src)\<rparr>"

section \<open>Properties of the classification and of termination\<close>

text \<open>
  C2 (as stated, refuted): the pull-request name with the empty type is rejected by the
  code, although the type is empty.
\<close>

theorem IsValidForEventName_empty_type_counterexample:
  "IsValidForEventName '''' ''pull-request'' \<noteq> spec_IsValidForEventName '''' ''pull-request''"
  by (simp add: IsValidForEventName_def spec_IsValidForEventName_def
      WorkflowHookEventNamePullRequest_def WorkflowHookEventTypePullRequestOpened_def
      WorkflowHookEventTypePullRequestReopened_def WorkflowHookEventTypePullRequestClosed_def
      WorkflowHookEventTypePullRequestEdited_def)

text \<open>
  C2 (amended): \<open>IsValidForEventName\<close> returns true if and only if the pair is one of
  the enumerated combinations, or the type is empty and the name is neither pull-request
  nor pull-request-comment; (pull-request, opened) is accepted, (push, opened) is
  rejected and (push, empty) is accepted.
\<close>

theorem IsValidForEventName_iff:
  "IsValidForEventName t n =
     ((t = '''' \<and> n \<noteq> ''pull-request'' \<and> n \<noteq> ''pull-request-comment'')
      \<or> (n = ''pull-request'' \<and> t \<in> {''opened'', ''reopened'', ''closed'', ''edited''})
      \<or> (n = ''pull-request-comment'' \<and> t \<in> {''created'', ''deleted'', ''edited''}))
   \<and> IsValidForEventName ''opened'' ''pull-request''
   \<and> \<not> IsValidForEventName ''opened'' ''push''
   \<and> IsValidForEventName '''' ''push''"
  by (simp add: IsValidForEventName_def
      WorkflowHookEventNamePullRequest_def WorkflowHookEventTypePullRequestOpened_def
      WorkflowHookEventTypePullRequestReopened_def WorkflowHookEventTypePullRequestClosed_def
      WorkflowHookEventTypePullRequestEdited_def WorkflowHookEventNamePullRequestComment_def
      WorkflowHookEventTypePullRequestCommentCreated_def
      WorkflowHookEventTypePullRequestCommentDeleted_def
      WorkflowHookEventTypePullRequestCommentEdited_def)

text \<open>
  C7: for the name pull-request the accepted types are exactly opened, reopened, closed
  and edited; for the name pull-request-comment exactly created, deleted and edited; for
  every other name exactly the empty type.
\<close>

theorem IsValidForEventName_classification:
  "(n = WorkflowHookEventNamePullRequest \<longrightarrow>
      IsValidForEventName t n = (t \<in> {''opened'', ''reopened'', ''closed'', ''edited''}))
   \<and> (n = WorkflowHookEventNamePullRequestComment \<longrightarrow>
      IsValidForEventName t n = (t \<in> {''created'', ''deleted'', ''edited''}))
   \<and> (n \<noteq> WorkflowHookEventNamePullRequest \<and> n \<noteq> WorkflowHookEventNamePullRequestComment \<longrightarrow>
      IsValidForEventName t n = (t = ''''))"
  by (simp add: IsValidForEventName_def
      WorkflowHookEventNamePullRequest_def WorkflowHookEventTypePullRequestOpened_def
      WorkflowHookEventTypePullRequestReopened_def WorkflowHookEventTypePullRequestClosed_def
      WorkflowHookEventTypePullRequestEdited_def WorkflowHookEventNamePullRequestComment_def
      WorkflowHookEventTypePullRequestCommentCreated_def
      WorkflowHookEventTypePullRequestCommentDeleted_def
      WorkflowHookEventTypePullRequestCommentEdited_def)

theorem IsValidForEventName_classification_witness:
  "IsValidForEventName ''closed'' ''pull-request''
   \<and> \<not> IsValidForEventName ''merged'' ''pull-request-comment''
   \<and> \<not> IsValidForEventName ''opened'' ''scheduler''
   \<and> IsValidForEventName '''' ''scheduler''"
  using IsValidForEventName_classification [of "''pull-request''" "''closed''"]
    IsValidForEventName_classification [of "''pull-request-comment''" "''merged''"]
    IsValidForEventName_classification [of "''scheduler''" "''opened''"]
    IsValidForEventName_classification [of "''scheduler''" "''''"]
  by (simp add: WorkflowHookEventNamePullRequest_def WorkflowHookEventNamePullRequestComment_def)

text \<open>
  C8: whatever the status string, \<open>HookRepositoryEvent.IsTerminated\<close> is true exactly
  for Done, Error and Skipped, and so is \<open>HookRepositoryEventWorkflow.IsTerminated\<close>
  for the status of a dispatch.
\<close>

theorem IsTerminated_iff:
  "HookRepositoryEvent_IsTerminated (h\<lparr>Status := s\<rparr>) = (s \<in> {''Done'', ''Error'', ''Skipped''})
   \<and> HookRepositoryEventWorkflow_IsTerminated (wh\<lparr>Status_w := s\<rparr>)
       = (s \<in> {''Done'', ''Error'', ''Skipped''})"
  by (auto simp: HookRepositoryEvent_IsTerminated_def HookRepositoryEventWorkflow_IsTerminated_def
      HookEventStatusDone_def HookEventStatusError_def HookEventStatusSkipped_def
      HookEventWorkflowStatusDone_def HookEventWorkflowStatusError_def
      HookEventWorkflowStatusSkipped_def)

section \<open>Properties of the insight report\<close>

subsection \<open>The loops as maps\<close>

lemma foldl_Datas_snoc:
  "foldl (\<lambda>r a. r\<lparr>Datas := Datas r @ [f a]\<rparr>) r xs = r\<lparr>Datas := Datas r @ map f xs\<rparr>"
  by (induction xs arbitrary: r) simp_all

lemma foldl_Detail_cond:
  "foldl (\<lambda>r a. if P a then r\<lparr>Detail := Detail r @ g a\<rparr> else r) r xs
     = r\<lparr>Detail := Detail r @ concat (map g (filter P xs))\<rparr>"
  by (induction xs arbitrary: r) simp_all

lemma addErrors_eq:
  "addErrors h r =
     r\<lparr>Detail := Detail r @
        (if Status h \<noteq> ''Done'' then ''\<newline>\<newline>'' @ LastError h
         else concat (map (\<lambda>a. ''\<newline>\<newline>On project '' @ ProjectKey_a a @ '': '' @ Error_a a)
                (filter (\<lambda>a. Error_a a \<noteq> '''') (Analyses h))))\<rparr>"
  unfolding addErrors_def HookEventStatusDone_def
  by (simp add: foldl_Detail_cond)

lemma addAnalyses_eq:
  "addAnalyses E uiURL h r =
     r\<lparr>Datas := Datas r @
        (if length (Analyses h) < 6 then
           map (\<lambda>a. \<lparr>Title_d = ''Analysis on '' @ ProjectKey_a a, Type = ''LINK'',
                      Text = Status_a a,
                      Href = uiURL @ ''/project/'' @ ProjectKey_a a @ ''/explore/vcs/''
                        @ VCSServerName h @ ''/repository/''
                        @ PathEscape E (RepositoryName h) @ ''/settings''\<rparr>) (Analyses h)
         else
           [\<lparr>Title_d = ''Analysis on '' @ ProjectKey_a (Analyses h ! 0), Type = ''LINK'',
             Text = Status_a (Analyses h ! 0),
             Href = uiURL @ ''/project/'' @ ProjectKey_a (Analyses h ! 0) @ ''/explore/vcs/''
               @ VCSServerName h @ ''/repository/''
               @ PathEscape E (RepositoryName h) @ ''/settings''\<rparr>])\<rparr>"
  unfolding addAnalyses_def
  by (simp add: foldl_Datas_snoc Let_def)

lemma addWorkflows_eq:
  assumes "length (Datas r) \<le> 5"
  shows "addWorkflows E uiURL h r =
     Inr (r\<lparr>Datas := Datas r @
        (if length (WorkflowHooks h) + length (Datas r) < 7 then
           map (\<lambda>w. \<lparr>Title_d = WorkflowName w @ '' #'' @ fmt_d (RunNumber w), Type = ''LINK'',
                      Text = Status_w w,
                      Href = (if Status_w w = V2WorkflowRunStatusSuccess E then
                                uiURL @ ''/project/'' @ ProjectKey_w w @ ''/run/'' @ RunID w
                              else
                                uiURL @ ''/project/'' @ ProjectKey_w w @ ''/explore/vcs/''
                                @ VCSServerName h @ ''/repository/''
                                @ PathEscape E (RepositoryName h) @ ''/settings'')\<rparr>)
             (WorkflowHooks h)
         else
           [\<lparr>Title_d = ''Nb of workflows triggered'', Type = ''LINK'',
             Text = Itoa (length (WorkflowHooks h)),
             Href = uiURL @ ''/project/'' @ ProjectKey_w (WorkflowHooks h ! 0)
               @ ''/run?workflow_ref='' @ PathEscape E (Ref (WorkflowHooks h ! 0))
               @ ''&repository='' @ PathEscape E (VCSServerName h @ ''/'' @ RepositoryName h)\<rparr>])\<rparr>)"
proof (cases "length (WorkflowHooks h) + length (Datas r) < 7")
  case True
  then show ?thesis
    unfolding addWorkflows_def by (simp add: foldl_Datas_snoc)
next
  case False
  with assms have "WorkflowHooks h \<noteq> []" by auto
  then obtain w ws where "WorkflowHooks h = w # ws" by (cases "WorkflowHooks h") auto
  with False show ?thesis
    unfolding addWorkflows_def by (simp add: Let_def)
qed

subsection \<open>The report after the analyses, and the whole report\<close>

lemma analysedReport_Title: "Title (analysedReport E h uiURL) = ''CDS''"
  by (simp add: analysedReport_def addAnalyses_eq addErrors_eq newReport_def)

lemma analysedReport_Detail:
  "Detail (analysedReport E h uiURL) =
     ''Event '' @ Quote (quoteMultibyte E) (EventName h) @ '' ('' @ UUID h @ ''): '' @ Status h @
       (if Status h \<noteq> ''Done'' then ''\<newline>\<newline>'' @ LastError h
        else concat (map (\<lambda>a. ''\<newline>\<newline>On project '' @ ProjectKey_a a @ '': '' @ Error_a a)
               (filter (\<lambda>a. Error_a a \<noteq> '''') (Analyses h))))"
  by (simp add: analysedReport_def addAnalyses_eq addErrors_eq newReport_def)

lemma analysedReport_Datas:
  "Datas (analysedReport E h uiURL) =
     (if length (Analyses h) < 6 then
        map (\<lambda>a. \<lparr>Title_d = ''Analysis on '' @ ProjectKey_a a, Type = ''LINK'',
                   Text = Status_a a,
                   Href = uiURL @ ''/project/'' @ ProjectKey_a a @ ''/explore/vcs/''
                     @ VCSServerName h @ ''/repository/''
                     @ PathEscape E (RepositoryName h) @ ''/settings''\<rparr>) (Analyses h)
      else
        [\<lparr>Title_d = ''Analysis on '' @ ProjectKey_a (Analyses h ! 0), Type = ''LINK'',
          Text = Status_a (Analyses h ! 0),
          Href = uiURL @ ''/project/'' @ ProjectKey_a (Analyses h ! 0) @ ''/explore/vcs/''
            @ VCSServerName h @ ''/repository/''
            @ PathEscape E (RepositoryName h) @ ''/settings''\<rparr>])"
  by (simp add: analysedReport_def addAnalyses_eq addErrors_eq newReport_def)

lemma analysedReport_Datas_length: "length (Datas (analysedReport E h uiURL)) \<le> 5"
  by (simp add: analysedReport_Datas)

lemma ToInsightReport_eq:
  "ToInsightReport E h uiURL =
    Inr ((analysedReport E h uiURL)\<lparr>Datas := Datas (analysedReport E h uiURL) @
        (if length (WorkflowHooks h) + length (Datas (analysedReport E h uiURL)) < 7 then
           map (\<lambda>w. \<lparr>Title_d = WorkflowName w @ '' #'' @ fmt_d (RunNumber w), Type = ''LINK'',
                      Text = Status_w w,
                      Href = (if Status_w w = V2WorkflowRunStatusSuccess E then
                                uiURL @ ''/project/'' @ ProjectKey_w w @ ''/run/'' @ RunID w
                              else
                                uiURL @ ''/project/'' @ ProjectKey_w w @ ''/explore/vcs/''
                                @ VCSServerName h @ ''/repository/''
                                @ PathEscape E (RepositoryName h) @ ''/settings'')\<rparr>)
             (WorkflowHooks h)
         else
           [\<lparr>Title_d = ''Nb of workflows triggered'', Type = ''LINK'',
             Text = Itoa (length (WorkflowHooks h)),
             Href = uiURL @ ''/project/'' @ ProjectKey_w (WorkflowHooks h ! 0)
               @ ''/run?workflow_ref='' @ PathEscape E (Ref (WorkflowHooks h ! 0))
               @ ''&repository='' @ PathEscape E (VCSServerName h @ ''/'' @ RepositoryName h)\<rparr>])\<rparr>)"
  unfolding ToInsightReport_def
  by (rule addWorkflows_eq) (rule analysedReport_Datas_length)

subsection \<open>Decimal printing and quoting\<close>

lemma digits_nth: "d < 10 \<Longrightarrow> (of_char (digits ! d) :: nat) = 48 + d"
proof -
  have "\<forall>d \<in> set [0..<10]. (of_char (digits ! d) :: nat) = 48 + d"
    by (simp add: upt_rec digits_def)
  then show "d < 10 \<Longrightarrow> (of_char (digits ! d) :: nat) = 48 + d"
    by simp
qed

lemma foldl_dec_formatBits:
  "foldl (\<lambda>v c. 10 * v + (of_char c - 48)) (0::nat) (formatBits u a)
     = foldl (\<lambda>v c. 10 * v + (of_char c - 48)) u a"
proof (induction u a rule: formatBits.induct)
  case (1 u a)
  show ?case
  proof (cases "u < 10")
    case True
    then show ?thesis
      by (subst formatBits.simps) (simp add: digits_nth)
  next
    case False
    have "foldl (\<lambda>v c. 10 * v + (of_char c - 48)) (0::nat) (formatBits u a)
        = foldl (\<lambda>v c. 10 * v + (of_char c - 48)) (0::nat)
            (formatBits (u div 10) ((digits ! (u mod 10)) # a))"
      using False by (subst formatBits.simps) simp
    also have "\<dots> = foldl (\<lambda>v c. 10 * v + (of_char c - 48)) (u div 10)
        ((digits ! (u mod 10)) # a)"
      using False "1.IH" by simp
    also have "\<dots> = foldl (\<lambda>v c. 10 * v + (of_char c - 48)) u a"
      by (simp add: digits_nth)
    finally show ?thesis .
  qed
qed

lemma decimalValue_Itoa: "decimalValue (Itoa n) = n"
  by (simp add: decimalValue_def Itoa_def FormatInt_def foldl_dec_formatBits)

lemma quoteLoop_plain:
  "\<forall>c\<in>set s. 0x20 \<le> (of_char c :: nat) \<and> (of_char c :: nat) < 0x7F \<and> c \<noteq> CHR 0x22 \<and> c \<noteq> CHR 0x5C
    \<Longrightarrow> quoteLoop hi s = s"
  by (induction s) (simp_all add: appendEscapedRune_def)

lemma sample_lengths:
  "length (Datas (analysedReport sampleExternals smallEvent uiURL)) = 2"
  "length (Datas (analysedReport sampleExternals largeEvent uiURL)) = 1"
  "length (WorkflowHooks smallEvent) = 2"
  "length (WorkflowHooks largeEvent) = 6"
  by (simp_all add: analysedReport_Datas smallEvent_def largeEvent_def sampleEvent_def)

subsection \<open>The items of the analyses\<close>

text \<open>
  C1 (the code at the failing input): with no analysis the first branch of the analysis
  section is taken (\<open>0 < 6\<close>), its loop runs zero times and no item is produced; the
  branch that builds the TEXT item with the text \<open>0\<close> is never reached. With no workflow
  either, the whole report has no item.
\<close>

theorem ToInsightReport_no_analyses:
  "Datas (analysedReport E (h\<lparr>Analyses := []\<rparr>) uiURL) = []
   \<and> (\<exists>r. ToInsightReport E (h\<lparr>Analyses := [], WorkflowHooks := []\<rparr>) uiURL = Inr r
          \<and> Datas r = [])"
  by (simp add: ToInsightReport_eq analysedReport_Datas)

text \<open>
  C4: with at most five analyses the analysis section produces one LINK item for each
  analysis, in order, titled \<open>Analysis on <project>\<close> and linking to the repository
  settings view of that project; with six or more it produces one such item, from the
  first analysis. These items are the first items of the report that is returned.
\<close>

theorem ToInsightReport_analysis_items:
  "(length (Analyses h) \<le> 5 \<longrightarrow>
      Datas (analysedReport E h uiURL)
        = map (\<lambda>a. \<lparr>Title_d = ''Analysis on '' @ ProjectKey_a a, Type = ''LINK'',
                     Text = Status_a a,
                     Href = uiURL @ ''/project/'' @ ProjectKey_a a @ ''/explore/vcs/''
                       @ VCSServerName h @ ''/repository/''
                       @ PathEscape E (RepositoryName h) @ ''/settings''\<rparr>) (Analyses h))
   \<and> (6 \<le> length (Analyses h) \<longrightarrow>
      Datas (analysedReport E h uiURL)
        = [\<lparr>Title_d = ''Analysis on '' @ ProjectKey_a (Analyses h ! 0), Type = ''LINK'',
            Text = Status_a (Analyses h ! 0),
            Href = uiURL @ ''/project/'' @ ProjectKey_a (Analyses h ! 0) @ ''/explore/vcs/''
              @ VCSServerName h @ ''/repository/''
              @ PathEscape E (RepositoryName h) @ ''/settings''\<rparr>])
   \<and> (\<exists>r. ToInsightReport E h uiURL = Inr r
        \<and> take (length (Datas (analysedReport E h uiURL))) (Datas r)
            = Datas (analysedReport E h uiURL))"
proof (cases "length (Analyses h) < 6")
  case True
  then show ?thesis
    by (simp add: ToInsightReport_eq analysedReport_Datas)
next
  case False
  then show ?thesis
    by (simp add: ToInsightReport_eq analysedReport_Datas)
qed

theorem ToInsightReport_analysis_items_witness:
  "length (Analyses smallEvent) \<le> 5
   \<and> Datas (analysedReport sampleExternals smallEvent ''https://ui'')
     = [\<lparr>Title_d = ''Analysis on P1'', Type = ''LINK'', Text = ''Success'',
          Href = ''https://ui/project/P1/explore/vcs/github/repository/ovh%2Fcds/settings''\<rparr>,
        \<lparr>Title_d = ''Analysis on P2'', Type = ''LINK'', Text = ''Error'',
          Href = ''https://ui/project/P2/explore/vcs/github/repository/ovh%2Fcds/settings''\<rparr>]
   \<and> 6 \<le> length (Analyses largeEvent)
   \<and> Datas (analysedReport sampleExternals largeEvent ''https://ui'')
     = [\<lparr>Title_d = ''Analysis on P1'', Type = ''LINK'', Text = ''Success'',
          Href = ''https://ui/project/P1/explore/vcs/github/repository/ovh%2Fcds/settings''\<rparr>]"
  using ToInsightReport_analysis_items [of smallEvent sampleExternals "''https://ui''"]
    ToInsightReport_analysis_items [of largeEvent sampleExternals "''https://ui''"]
  by (simp add: smallEvent_def largeEvent_def sampleEvent_def sampleAnalysis_def
      sampleExternals_def escape_pathSegment_def shouldEscape_pathSegment_def upperhex_def)

subsection \<open>The items of the workflows\<close>

text \<open>
  C3: let \<open>n\<close> be the number of workflow hooks and \<open>m\<close> the number of items that the
  analysis section has produced. If \<open>n + m < 7\<close>, the report returned is these \<open>m\<close>
  items followed by one item for each workflow hook, in order, titled
  \<open><workflowName> #<runNumber>\<close>. If \<open>n + m \<ge> 7\<close>, it is these \<open>m\<close> items followed
  by one item whose text is \<open>n\<close> in decimal and whose link is the run list of the first
  hook's project, filtered by the path-escaped ref of the first hook and by the
  path-escaped \<open><vcsServerName>/<repositoryName>\<close>.
\<close>

theorem ToInsightReport_workflow_items:
  "(length (WorkflowHooks h) + length (Datas (analysedReport E h uiURL)) < 7 \<longrightarrow>
      (\<exists>r. ToInsightReport E h uiURL = Inr r
        \<and> take (length (Datas (analysedReport E h uiURL))) (Datas r)
            = Datas (analysedReport E h uiURL)
        \<and> drop (length (Datas (analysedReport E h uiURL))) (Datas r)
            = map (\<lambda>w. \<lparr>Title_d = WorkflowName w @ '' #'' @ fmt_d (RunNumber w),
                         Type = ''LINK'', Text = Status_w w,
                         Href = (if Status_w w = V2WorkflowRunStatusSuccess E then
                                   uiURL @ ''/project/'' @ ProjectKey_w w @ ''/run/'' @ RunID w
                                 else
                                   uiURL @ ''/project/'' @ ProjectKey_w w @ ''/explore/vcs/''
                                   @ VCSServerName h @ ''/repository/''
                                   @ PathEscape E (RepositoryName h) @ ''/settings'')\<rparr>)
                (WorkflowHooks h)))
   \<and> (7 \<le> length (WorkflowHooks h) + length (Datas (analysedReport E h uiURL)) \<longrightarrow>
      (\<exists>r. ToInsightReport E h uiURL = Inr r
        \<and> take (length (Datas (analysedReport E h uiURL))) (Datas r)
            = Datas (analysedReport E h uiURL)
        \<and> drop (length (Datas (analysedReport E h uiURL))) (Datas r)
            = [\<lparr>Title_d = ''Nb of workflows triggered'', Type = ''LINK'',
                Text = Itoa (length (WorkflowHooks h)),
                Href = uiURL @ ''/project/'' @ ProjectKey_w (WorkflowHooks h ! 0)
                  @ ''/run?workflow_ref='' @ PathEscape E (Ref (WorkflowHooks h ! 0))
                  @ ''&repository=''
                  @ PathEscape E (VCSServerName h @ ''/'' @ RepositoryName h)\<rparr>]
        \<and> decimalValue (Itoa (length (WorkflowHooks h))) = length (WorkflowHooks h)))"
proof (cases "length (WorkflowHooks h) + length (Datas (analysedReport E h uiURL)) < 7")
  case True
  then show ?thesis
    by (simp add: ToInsightReport_eq)
next
  case False
  then show ?thesis
    by (simp add: ToInsightReport_eq decimalValue_Itoa)
qed

theorem ToInsightReport_workflow_items_witness:
  "length (WorkflowHooks smallEvent)
      + length (Datas (analysedReport sampleExternals smallEvent ''https://ui'')) < 7
   \<and> (\<exists>r. ToInsightReport sampleExternals smallEvent ''https://ui'' = Inr r
      \<and> drop 2 (Datas r)
          = [\<lparr>Title_d = ''build #12'', Type = ''LINK'', Text = ''Success'',
               Href = ''https://ui/project/PK/run/r-1''\<rparr>,
             \<lparr>Title_d = ''test #3'', Type = ''LINK'', Text = ''Error'',
               Href = ''https://ui/project/PK/explore/vcs/github/repository/ovh%2Fcds/settings''\<rparr>])
   \<and> 7 \<le> length (WorkflowHooks largeEvent)
      + length (Datas (analysedReport sampleExternals largeEvent ''https://ui''))
   \<and> (\<exists>r. ToInsightReport sampleExternals largeEvent ''https://ui'' = Inr r
      \<and> drop 1 (Datas r)
          = [\<lparr>Title_d = ''Nb of workflows triggered'', Type = ''LINK'', Text = ''6'',
               Href = ''https://ui/project/PK/run?workflow_ref=refs%2Fheads%2Fmain&repository=github%2Fovh%2Fcds''\<rparr>])"
proof -
  have hooks_small: "WorkflowHooks smallEvent
      = [sampleWorkflow ''build'' ''Success'' 12, sampleWorkflow ''test'' ''Error'' 3]"
    by (simp add: smallEvent_def sampleEvent_def)
  have hook_large: "WorkflowHooks largeEvent ! 0 = sampleWorkflow ''build'' ''Success'' 12"
    by (simp add: largeEvent_def sampleEvent_def)
  have names: "VCSServerName smallEvent = ''github''" "RepositoryName smallEvent = ''ovh/cds''"
    "VCSServerName largeEvent = ''github''" "RepositoryName largeEvent = ''ovh/cds''"
    by (simp_all add: smallEvent_def largeEvent_def sampleEvent_def)
  have fmt: "fmt_d 12 = ''12''" "fmt_d 3 = ''3''" "Itoa 6 = ''6''"
    by (simp_all add: fmt_d_def Itoa_def FormatInt_def formatBits.simps digits_def)
  have esc: "PathEscape sampleExternals ''ovh/cds'' = ''ovh%2Fcds''"
    "PathEscape sampleExternals ''refs/heads/main'' = ''refs%2Fheads%2Fmain''"
    "PathEscape sampleExternals ''github/ovh/cds'' = ''github%2Fovh%2Fcds''"
    by (simp_all add: sampleExternals_def escape_pathSegment_def shouldEscape_pathSegment_def
        upperhex_def)
  have succ: "V2WorkflowRunStatusSuccess sampleExternals = ''Success''"
    by (simp add: sampleExternals_def)
  show ?thesis
    using ToInsightReport_workflow_items [of smallEvent sampleExternals "''https://ui''"]
      ToInsightReport_workflow_items [of largeEvent sampleExternals "''https://ui''"]
    by (auto simp: sample_lengths hooks_small hook_large names fmt esc succ sampleWorkflow_def)
qed

text \<open>
  C9: the analysis section produces at most five items, so whenever the number of
  workflow hooks plus the number of these items is at least seven there is a first
  workflow hook, and \<open>ToInsightReport\<close> never panics on \<open>WorkflowHooks[0]\<close>.
\<close>

theorem ToInsightReport_first_workflow_in_bounds:
  "length (Datas (analysedReport E h uiURL)) \<le> 5
   \<and> (7 \<le> length (WorkflowHooks h) + length (Datas (analysedReport E h uiURL)) \<longrightarrow>
        0 < length (WorkflowHooks h))
   \<and> ToInsightReport E h uiURL \<noteq> Inl IndexOutOfRange"
proof -
  have m: "length (Datas (analysedReport E h uiURL)) \<le> 5"
    by (rule analysedReport_Datas_length)
  then have "7 \<le> length (WorkflowHooks h) + length (Datas (analysedReport E h uiURL)) \<longrightarrow>
      0 < length (WorkflowHooks h)"
    by arith
  moreover have "ToInsightReport E h uiURL \<noteq> Inl IndexOutOfRange"
    by (simp add: ToInsightReport_eq)
  ultimately show ?thesis
    using m by blast
qed

theorem ToInsightReport_first_workflow_in_bounds_witness:
  "7 \<le> length (WorkflowHooks largeEvent)
          + length (Datas (analysedReport sampleExternals largeEvent ''https://ui''))
   \<and> 0 < length (WorkflowHooks largeEvent)
   \<and> ToInsightReport sampleExternals largeEvent ''https://ui'' \<noteq> Inl IndexOutOfRange"
  using ToInsightReport_first_workflow_in_bounds [of sampleExternals largeEvent "''https://ui''"]
  by (simp add: sample_lengths)

text \<open>
  C10: for every event and every URL, \<open>ToInsightReport\<close> returns a report with at most
  six items whose title is \<open>CDS\<close>.
\<close>

theorem ToInsightReport_bounded:
  "\<exists>r. ToInsightReport E h uiURL = Inr r \<and> length (Datas r) \<le> 6 \<and> Title r = ''CDS''"
proof -
  let ?m = "length (Datas (analysedReport E h uiURL))"
  let ?n = "length (WorkflowHooks h)"
  obtain r where r: "ToInsightReport E h uiURL = Inr r"
    and len: "length (Datas r) = ?m + (if ?n + ?m < 7 then ?n else 1)"
    and title: "Title r = ''CDS''"
    by (simp add: ToInsightReport_eq analysedReport_Title)
  have "?m \<le> 5"
    by (rule analysedReport_Datas_length)
  with len have "length (Datas r) \<le> 6"
    by (simp split: if_splits)
  with r title show ?thesis
    by blast
qed

subsection \<open>The detail\<close>

text \<open>
  C6 (as stated, refuted): for an event whose name is a double quote, \<open>%q\<close> writes the
  name as \<open>\"\<close> between the quotes, so the detail does not begin with the name copied
  between two double quotes.
\<close>

theorem ToInsightReport_Detail_counterexample:
  "ToInsightReport sampleExternals quoteEvent ''https://ui'' =
     Inr \<lparr>Title = ''CDS'',
          Detail = ''Event '' @ [CHR 0x22, CHR 0x5C, CHR 0x22, CHR 0x22] @ '' (u-1): Done'',
          Datas = []\<rparr>
   \<and> \<not> prefix (spec_Detail_prefix quoteEvent)
         (''Event '' @ [CHR 0x22, CHR 0x5C, CHR 0x22, CHR 0x22] @ '' (u-1): Done'')"
  by (simp add: ToInsightReport_eq analysedReport_def addAnalyses_eq addErrors_eq newReport_def
      quoteEvent_def sampleEvent_def sampleExternals_def spec_Detail_prefix_def Quote_def
      appendEscapedRune_def)

text \<open>
  C6 (amended): the detail is \<open>Event <q> (<uuid>): <status>\<close>, where \<open><q>\<close> is the name
  as \<open>%q\<close> quotes it, followed, when the status is not Done, by an empty line and the
  last error message, and when the status is Done, for every analysis with a non-empty
  error, in order, by an empty line and \<open>On project <projectKey>: <error>\<close>. When every
  byte of the name is printable ASCII other than the double quote and the backslash,
  \<open><q>\<close> is the name between two double quotes.
\<close>

theorem ToInsightReport_Detail:
  "(\<exists>r. ToInsightReport E h uiURL = Inr r
      \<and> Detail r =
          ''Event '' @ Quote (quoteMultibyte E) (EventName h) @ '' ('' @ UUID h @ ''): '' @ Status h @
          (if Status h \<noteq> ''Done'' then ''\<newline>\<newline>'' @ LastError h
           else concat (map (\<lambda>a. ''\<newline>\<newline>On project '' @ ProjectKey_a a @ '': '' @ Error_a a)
                  (filter (\<lambda>a. Error_a a \<noteq> '''') (Analyses h)))))
   \<and> ((\<forall>c\<in>set (EventName h).
          0x20 \<le> (of_char c :: nat) \<and> (of_char c :: nat) < 0x7F \<and> c \<noteq> CHR 0x22 \<and> c \<noteq> CHR 0x5C) \<longrightarrow>
        Quote (quoteMultibyte E) (EventName h) = [CHR 0x22] @ EventName h @ [CHR 0x22])"
proof (intro conjI impI)
  show "\<exists>r. ToInsightReport E h uiURL = Inr r
      \<and> Detail r =
          ''Event '' @ Quote (quoteMultibyte E) (EventName h) @ '' ('' @ UUID h @ ''): '' @ Status h @
          (if Status h \<noteq> ''Done'' then ''\<newline>\<newline>'' @ LastError h
           else concat (map (\<lambda>a. ''\<newline>\<newline>On project '' @ ProjectKey_a a @ '': '' @ Error_a a)
                  (filter (\<lambda>a. Error_a a \<noteq> '''') (Analyses h))))"
    by (simp add: ToInsightReport_eq analysedReport_Detail)
next
  assume "\<forall>c\<in>set (EventName h).
      0x20 \<le> (of_char c :: nat) \<and> (of_char c :: nat) < 0x7F \<and> c \<noteq> CHR 0x22 \<and> c \<noteq> CHR 0x5C"
  then have "quoteLoop (quoteMultibyte E) (EventName h) = EventName h"
    by (rule quoteLoop_plain)
  then show "Quote (quoteMultibyte E) (EventName h) = [CHR 0x22] @ EventName h @ [CHR 0x22]"
    by (simp add: Quote_def)
qed

theorem ToInsightReport_Detail_witness:
  "(\<exists>r. ToInsightReport sampleExternals smallEvent ''https://ui'' = Inr r
      \<and> Detail r = ''Event '' @ [CHR 0x22] @ ''push'' @ [CHR 0x22]
            @ '' (u-1): Done\<newline>\<newline>On project P2: bad'')
   \<and> (\<exists>r. ToInsightReport sampleExternals largeEvent ''https://ui'' = Inr r
      \<and> Detail r = ''Event '' @ [CHR 0x22] @ ''push'' @ [CHR 0x22]
            @ '' (u-1): Error\<newline>\<newline>boom'')"
  using ToInsightReport_Detail [of sampleExternals smallEvent "''https://ui''"]
    ToInsightReport_Detail [of sampleExternals largeEvent "''https://ui''"]
  by (auto simp: smallEvent_def largeEvent_def sampleEvent_def sampleAnalysis_def)

section \<open>Properties of the webhook secrets\<close>

text \<open>
  C5: each of the two functions equals the reference definition applied to the master
  key and to the list of the other inputs, in the order of the parameters; so the secret
  is determined by the inputs: equal inputs give equal secrets.
\<close>

theorem GenerateWebHookSecret_refines_spec:
  "GenerateRepositoryWebHookSecret C hookSecretKey pkey vcsName repoName uuid
     = spec_deriveSecret C hookSecretKey [pkey, vcsName, repoName, uuid]
   \<and> GenerateWorkflowWebHookSecret C hookSecretKey pkey vcsName repoName workflowName uuid
     = spec_deriveSecret C hookSecretKey [pkey, vcsName, repoName, workflowName, uuid]
   \<and> ((hookSecretKey, pkey, vcsName, repoName, uuid)
         = (hookSecretKey', pkey', vcsName', repoName', uuid') \<longrightarrow>
       GenerateRepositoryWebHookSecret C hookSecretKey pkey vcsName repoName uuid
         = GenerateRepositoryWebHookSecret C hookSecretKey' pkey' vcsName' repoName' uuid')
   \<and> ((hookSecretKey, pkey, vcsName, repoName, workflowName, uuid)
         = (hookSecretKey', pkey', vcsName', repoName', workflowName', uuid') \<longrightarrow>
       GenerateWorkflowWebHookSecret C hookSecretKey pkey vcsName repoName workflowName uuid
         = GenerateWorkflowWebHookSecret C hookSecretKey' pkey' vcsName' repoName'
             workflowName' uuid')"
  by (simp add: GenerateRepositoryWebHookSecret_def GenerateWorkflowWebHookSecret_def
      spec_deriveSecret_def Let_def)

theorem GenerateWebHookSecret_refines_spec_witness:
  "GenerateRepositoryWebHookSecret sampleCrypto ''K'' ''PK'' ''github'' ''ovh/cds'' ''u-1''
     = ''PK-github-ovh/cds-u-1|K''
   \<and> GenerateWorkflowWebHookSecret sampleCrypto ''K'' ''PK'' ''github'' ''ovh/cds'' ''build'' ''u-1''
     = ''PK-github-ovh/cds-build-u-1|K''"
  using GenerateWebHookSecret_refines_spec [of sampleCrypto "''K''" "''PK''" "''github''"
      "''ovh/cds''" "''u-1''" "''build''" "''K''" "''PK''" "''github''" "''ovh/cds''" "''u-1''"
      "''build''"]
  by (simp add: spec_deriveSecret_def sampleCrypto_def)


end
